theory Spec2Isabelle
  imports Complex_Main "HOL-Library.AList" "HOL-Library.Char_ord"
    "HOL-Library.List_Lexorder" "HOL-Library.Product_Lexorder"
begin

section \<open>The heatmap notebook: data model\<close>

text \<open>
  The analysis notebook (\<^verbatim>\<open>TAT_EMA520_V5.ipynb\<close>, and its predecessor V3 with the
  same helper functions) works on pandas dataframes. A dataframe is modelled
  column-wise, as pandas stores it: a list of row labels and an ordered list of named,
  typed columns. A \<^verbatim>\<open>datetime64[ns]\<close> value is the number of nanoseconds since the
  epoch; \<^verbatim>\<open>NaT\<close> and \<^verbatim>\<open>NaN\<close> are \<open>None\<close>. A finite \<^verbatim>\<open>float64\<close> value is
  written as the rational number it denotes. The arithmetic of pandas on timestamps
  is checked against the range of \<^verbatim>\<open>datetime64[ns]\<close> where the notebook computes a
  timestamp; the arithmetic on floats is not part of the model but a parameter of it
  (see \<open>float_ops\<close> below).
\<close>

type_synonym timestamp = int

datatype column =
    DatetimeCol "timestamp option list"
  | FloatCol "rat option list"
  | ObjectCol "string option list"

record dataframe =
  index :: "nat list"
  columns :: "(string \<times> column) list"

datatype error =
    KeyError string | TypeError | AttributeError | NameError string | ValueError
  | FileNotFoundError string | ParserError | OutOfBoundsDatetime | OverflowError

text \<open>
  Python variables hold references to dataframe objects, and the notebook's helpers
  differ in whether they change the object they are given or build a new one. The
  store is the list of all dataframe objects; a reference is a position in it.
\<close>

type_synonym heap = "dataframe list"

definition deref :: "heap \<Rightarrow> nat \<Rightarrow> dataframe option" where
  "deref h r = (if r < length h then Some (h ! r) else None)"

definition alloc :: "heap \<Rightarrow> dataframe \<Rightarrow> heap \<times> nat" where
  "alloc h d = (h @ [d], length h)"

text \<open>\<^verbatim>\<open>df[c]\<close>: the column named \<open>c\<close>, or \<^verbatim>\<open>KeyError\<close>.\<close>

definition getitem :: "dataframe \<Rightarrow> string \<Rightarrow> error + column" where
  "getitem d c = (case map_of (columns d) c of None \<Rightarrow> Inl (KeyError c) | Some col \<Rightarrow> Inr col)"

text \<open>\<^verbatim>\<open>df.loc[mask]\<close>: the rows at the positions where the boolean mask is true.\<close>

definition select :: "bool list \<Rightarrow> 'a list \<Rightarrow> 'a list" where
  "select m xs = map fst (filter snd (zip xs m))"

fun take_rows :: "bool list \<Rightarrow> column \<Rightarrow> column" where
  "take_rows m (DatetimeCol xs) = DatetimeCol (select m xs)"
| "take_rows m (FloatCol xs) = FloatCol (select m xs)"
| "take_rows m (ObjectCol xs) = ObjectCol (select m xs)"

definition loc :: "dataframe \<Rightarrow> bool list \<Rightarrow> dataframe" where
  "loc d m = \<lparr>index = select m (index d), columns = map (\<lambda>(c, col). (c, take_rows m col)) (columns d)\<rparr>"

subsection \<open>\<^verbatim>\<open>filter_data\<close>\<close>

text \<open>
  \<^verbatim>\<open>
  def filter_data(df, days):
      end_date = df['EntryTime'].max()
      start_date = end_date - pd.DateOffset(days=days)
      return df.loc[(df['EntryTime'] >= start_date) & (df['EntryTime'] <= end_date)].copy()
  \<close>
  \<^verbatim>\<open>Series.max\<close> skips \<^verbatim>\<open>NaT\<close> and is \<^verbatim>\<open>NaT\<close> when nothing is left. A comparison
  with \<^verbatim>\<open>NaT\<close> on either side is false. On a column that is not datetime the
  subtraction raises \<^verbatim>\<open>TypeError\<close>. The result is a new object in the store.

  Subtracting a \<^verbatim>\<open>DateOffset\<close> of whole days from a timestamp without time zone
  moves it by that many times 24 hours and leaves \<^verbatim>\<open>NaT\<close> as it is. pandas computes
  the difference on a Python \<^verbatim>\<open>datetime\<close> (microseconds, years 1 to 9999), which
  raises \<^verbatim>\<open>OverflowError\<close> outside that range or for more than 999999999 days, and
  converts the result back to a nanosecond timestamp, which raises
  \<^verbatim>\<open>OutOfBoundsDatetime\<close> outside the 64-bit range of \<^verbatim>\<open>datetime64[ns]\<close>
  (1677-09-21 to 2262-04-11).
\<close>

fun later :: "timestamp option \<Rightarrow> timestamp option \<Rightarrow> timestamp option" where
  "later None acc = acc"
| "later (Some t) None = Some t"
| "later (Some t) (Some a) = Some (max a t)"

definition series_max :: "timestamp option list \<Rightarrow> timestamp option" where
  "series_max xs = fold later xs None"

definition day_ns :: int where
  "day_ns = 86400 * 1000000000"

definition day_us :: int where
  "day_us = 86400 * 1000000"

definition Timestamp_min :: int where
  "Timestamp_min = - (2 ^ 63 - 1)"

definition Timestamp_max :: int where
  "Timestamp_max = 2 ^ 63 - 1"

definition datetime_min_us :: int where
  "datetime_min_us = - 62135596800000000"

definition datetime_max_us :: int where
  "datetime_max_us = 253402300799999999"

definition sub_DateOffset :: "timestamp option \<Rightarrow> int \<Rightarrow> error + timestamp option" where
  "sub_DateOffset t days =
     (case t of
        None \<Rightarrow> Inr None
      | Some x \<Rightarrow>
          (let us = x div 1000 - days * day_us;
               ns = x - days * day_ns
           in if 999999999 < \<bar>days\<bar> \<or> us < datetime_min_us \<or> datetime_max_us < us
              then Inl OverflowError
              else if ns < Timestamp_min \<or> Timestamp_max < ns then Inl OutOfBoundsDatetime
              else Inr (Some ns)))"

fun ts_le :: "timestamp option \<Rightarrow> timestamp option \<Rightarrow> bool" where
  "ts_le (Some a) (Some b) = (a \<le> b)"
| "ts_le _ _ = False"

definition filter_data :: "heap \<Rightarrow> nat \<Rightarrow> int \<Rightarrow> heap \<times> (error + nat)" where
  "filter_data h df days =
     (case deref h df of
        None \<Rightarrow> (h, Inl (NameError ''df''))
      | Some d \<Rightarrow>
         (case getitem d ''EntryTime'' of
            Inl e \<Rightarrow> (h, Inl e)
          | Inr (DatetimeCol ts) \<Rightarrow>
              (let end_date = series_max ts
               in case sub_DateOffset end_date days of
                    Inl e \<Rightarrow> (h, Inl e)
                  | Inr start_date \<Rightarrow>
                      (let mask = map (\<lambda>t. ts_le start_date t \<and> ts_le t end_date) ts;
                           (h', r) = alloc h (loc d mask)
                       in (h', Inr r)))
          | Inr _ \<Rightarrow> (h, Inl TypeError)))"

text \<open>
  The same selection in the words of its description: the latest entry time of the
  frame, the closed window of \<open>days\<close> days that ends there, and the rows of a column
  whose entry time lies in the window. \<open>representable\<close> is the range of
  \<^verbatim>\<open>datetime64[ns]\<close>; the start of the window can be computed when the frame has
  no entry time at all, or when its latest entry time and the start are in that
  range.
\<close>

definition valid :: "timestamp option list \<Rightarrow> timestamp set" where
  "valid ts = set (List.map_filter (\<lambda>t. t) ts)"

definition latest :: "timestamp option list \<Rightarrow> timestamp" where
  "latest ts = Max (valid ts)"

definition in_window :: "timestamp option list \<Rightarrow> int \<Rightarrow> timestamp option \<Rightarrow> bool" where
  "in_window ts days x =
     (case x of None \<Rightarrow> False
      | Some t \<Rightarrow> latest ts - days * day_ns \<le> t \<and> t \<le> latest ts)"

definition rows_in_window :: "timestamp option list \<Rightarrow> int \<Rightarrow> 'a list \<Rightarrow> 'a list" where
  "rows_in_window ts days xs = map fst (filter (\<lambda>(x, t). in_window ts days t) (zip xs ts))"

fun column_in_window :: "timestamp option list \<Rightarrow> int \<Rightarrow> column \<Rightarrow> column" where
  "column_in_window ts days (DatetimeCol xs) = DatetimeCol (rows_in_window ts days xs)"
| "column_in_window ts days (FloatCol xs) = FloatCol (rows_in_window ts days xs)"
| "column_in_window ts days (ObjectCol xs) = ObjectCol (rows_in_window ts days xs)"

definition representable :: "int \<Rightarrow> bool" where
  "representable x = (- (2 ^ 63) < x \<and> x < 2 ^ 63)"

definition window_start_representable :: "timestamp option list \<Rightarrow> int \<Rightarrow> bool" where
  "window_start_representable ts days =
     (valid ts = {} \<or> (representable (latest ts) \<and> representable (latest ts - days * day_ns)))"

subsection \<open>Float arithmetic\<close>

text \<open>
  A \<^verbatim>\<open>float64\<close> is a finite number, an infinity or \<^verbatim>\<open>nan\<close>. What pandas, numpy
  and Python compute on such values (the sum of the values of a group, the product
  with 100, the sum of a series, the quotient by an integer, \<^verbatim>\<open>round(x, 2)\<close>) is
  rounded binary arithmetic inside those libraries. It is not embedded here: the five
  operations are parameters of the functions below, and what is proved of these
  functions holds for every choice of the five, so also for the operations of the
  installed libraries. Which values enter which operation, and in which order, is
  what the model takes from the notebook.

  \<^item> \<open>fsum_group\<close>: the sum pandas returns for one group of \<^verbatim>\<open>groupby(...).sum()\<close>,
    from the values of the group that are not \<^verbatim>\<open>NaN\<close>, in row order;
  \<^item> \<open>fmul_100\<close>: \<^verbatim>\<open>x * 100\<close>;
  \<^item> \<open>fsum_series\<close>: \<^verbatim>\<open>Series.sum()\<close> of the values of a series, in their order;
  \<^item> \<open>fdiv_int\<close>: \<^verbatim>\<open>x / d\<close> for a numpy float \<open>x\<close> and a Python integer \<open>d\<close>;
  \<^item> \<open>fround_2\<close>: \<^verbatim>\<open>round(x, 2)\<close>.
\<close>

datatype float64 = Finite rat | PosInf | NegInf | NaN

record float_ops =
  fsum_group :: "rat list \<Rightarrow> float64"
  fmul_100 :: "float64 \<Rightarrow> float64"
  fsum_series :: "float64 list \<Rightarrow> float64"
  fdiv_int :: "float64 \<Rightarrow> int \<Rightarrow> float64"
  fround_2 :: "float64 \<Rightarrow> float64"

text \<open>
  Comparison of floats is exact. Sorting a series by descending value puts
  \<^verbatim>\<open>NaN\<close> last; the sort key below does that.
\<close>

fun desc_key :: "float64 \<Rightarrow> nat \<times> rat" where
  "desc_key PosInf = (0, 0)"
| "desc_key (Finite x) = (1, - x)"
| "desc_key NegInf = (2, 0)"
| "desc_key NaN = (3, 0)"

subsection \<open>\<^verbatim>\<open>rank_trading_times\<close>\<close>

text \<open>
  \<^verbatim>\<open>
  def rank_trading_times(df):
      df['EntryHourMinute'] = df['EntryTime'].dt.strftime('%H:%M')
      profit_per_time = df.groupby('EntryHourMinute')['ProfitLossAfterSlippage'].sum()*100
      return profit_per_time.sort_values(ascending=False)
  \<close>
  \<^verbatim>\<open>strftime('%H:%M')\<close> renders the hour and the minute of the day with two digits
  each; \<^verbatim>\<open>NaT\<close> renders as \<^verbatim>\<open>NaN\<close>. The \<^verbatim>\<open>.dt\<close> accessor raises
  \<^verbatim>\<open>AttributeError\<close> on a column that is not datetime.
\<close>

definition digit :: "nat \<Rightarrow> char" where
  "digit n = ''0123456789'' ! n"

definition pad2 :: "nat \<Rightarrow> string" where
  "pad2 n = [digit (n div 10), digit (n mod 10)]"

definition hour_of :: "timestamp \<Rightarrow> nat" where
  "hour_of t = nat ((t div 3600000000000) mod 24)"

definition minute_of :: "timestamp \<Rightarrow> nat" where
  "minute_of t = nat ((t div 60000000000) mod 60)"

definition strftime_HM :: "timestamp \<Rightarrow> string" where
  "strftime_HM t = pad2 (hour_of t) @ '':'' @ pad2 (minute_of t)"

definition dt_strftime :: "timestamp option list \<Rightarrow> string option list" where
  "dt_strftime ts = map (map_option strftime_HM) ts"

text \<open>
  \<^verbatim>\<open>df[c] = values\<close> changes the object itself: an existing column of that name is
  replaced where it stands, a new one is appended after the others.
\<close>

definition setitem :: "dataframe \<Rightarrow> string \<Rightarrow> column \<Rightarrow> dataframe" where
  "setitem d c col = d\<lparr>columns := AList.update c col (columns d)\<rparr>"

text \<open>
  \<^verbatim>\<open>groupby(key)[value].sum()\<close>: one group per distinct key, the groups in ascending
  order of the key, rows whose key is \<^verbatim>\<open>NaN\<close> dropped, \<^verbatim>\<open>NaN\<close> values skipped
  by the sum. The result is a series: labels with their values.
\<close>

type_synonym series = "(string \<times> float64) list"

definition group_keys :: "string option list \<Rightarrow> string list" where
  "group_keys ks = sort (remdups (List.map_filter (\<lambda>k. k) ks))"

definition group_values :: "string option list \<Rightarrow> rat option list \<Rightarrow> string \<Rightarrow> rat list" where
  "group_values ks vs k =
     List.map_filter (\<lambda>(k', v). if k' = Some k then v else None) (zip ks vs)"

definition groupby_sum :: "float_ops \<Rightarrow> string option list \<Rightarrow> rat option list \<Rightarrow> series" where
  "groupby_sum ops ks vs = map (\<lambda>k. (k, fsum_group ops (group_values ks vs k))) (group_keys ks)"

definition times100 :: "float_ops \<Rightarrow> series \<Rightarrow> series" where
  "times100 ops s = map (\<lambda>(k, v). (k, fmul_100 ops v)) s"

text \<open>Descending order of the values; equal values keep the order of their groups.\<close>

definition sort_values_desc :: "series \<Rightarrow> series" where
  "sort_values_desc s = sort_key (\<lambda>(k, v). desc_key v) s"

text \<open>
  The first statement of the function has taken effect on the caller's object when a
  later one raises, so the store is returned with the error as well. The grouping
  column is the one just assigned. Summing is modelled for float columns, the only
  ones the notebook sums.
\<close>

definition rank_trading_times :: "float_ops \<Rightarrow> heap \<Rightarrow> nat \<Rightarrow> heap \<times> (error + series)" where
  "rank_trading_times ops h df =
     (case deref h df of
        None \<Rightarrow> (h, Inl (NameError ''df''))
      | Some d \<Rightarrow>
         (case getitem d ''EntryTime'' of
            Inl e \<Rightarrow> (h, Inl e)
          | Inr (DatetimeCol ts) \<Rightarrow>
              (let hm = dt_strftime ts;
                   d' = setitem d ''EntryHourMinute'' (ObjectCol hm);
                   h' = h[df := d']
               in case getitem d' ''ProfitLossAfterSlippage'' of
                    Inl e \<Rightarrow> (h', Inl e)
                  | Inr (FloatCol ps) \<Rightarrow>
                      (let profit_per_time = times100 ops (groupby_sum ops hm ps)
                       in (h', Inr (sort_values_desc profit_per_time)))
                  | Inr _ \<Rightarrow> (h', Inl TypeError))
          | Inr _ \<Rightarrow> (h, Inl AttributeError)))"

subsection \<open>\<^verbatim>\<open>top_trading_times_and_avg_profit_per_day\<close> (V5 only)\<close>

text \<open>
  \<^verbatim>\<open>
  def top_trading_times_and_avg_profit_per_day(df, n=3):
      df['EntryHourMinute'] = df['EntryTime'].dt.strftime('%H:%M')
      profit_per_time = df.groupby('EntryHourMinute')['ProfitLossAfterSlippage'].sum()*100
      top_times = profit_per_time.nlargest(n).reset_index()
      top_times['EntryHourMinute'] = top_times['EntryHourMinute'].apply(
          lambda x: datetime.strptime(x, '%H:%M'))
      top_times = top_times.sort_values('EntryHourMinute')
      time_str = ' ; '.join(top_times['EntryHourMinute'].dt.strftime('%H:%M'))

      unique_days = days # number of unique trading days
      avg_profit_per_day = top_times['ProfitLossAfterSlippage'].sum() / unique_days
      avg_profit_per_day = round(avg_profit_per_day, 2)  # Round to 2 decimal places

      return time_str, avg_profit_per_day
  \<close>
  \<^verbatim>\<open>days\<close> is not a parameter: it is the global variable of that name, which the
  notebook's main loop binds to the length of the current window; it is \<open>None\<close> here
  when no such global exists.

  \<^verbatim>\<open>nlargest(n)\<close> is empty for \<open>n \<le> 0\<close> and otherwise the first \<open>n\<close> entries in
  descending order of the values, the earlier label first among equals and
  \<^verbatim>\<open>NaN\<close> after all numbers. \<^verbatim>\<open>strptime(x, '%H:%M')\<close> gives a time of day on
  1900-01-01, kept here as the minutes after midnight, which order the same way; only
  the zero-padded form that \<^verbatim>\<open>strftime\<close> produces is parsed. On an empty selection
  the column that \<^verbatim>\<open>apply\<close> returns keeps the dtype \<^verbatim>\<open>object\<close>, and the
  \<^verbatim>\<open>.dt\<close> accessor raises \<^verbatim>\<open>AttributeError\<close>. The sum, the quotient and the
  rounding are the float operations of the libraries.
\<close>

definition nlargest :: "int \<Rightarrow> series \<Rightarrow> series" where
  "nlargest n s = (if n \<le> 0 then [] else take (nat n) (sort_key (\<lambda>(k, v). desc_key v) s))"

definition digit_val :: "char \<Rightarrow> nat option" where
  "digit_val c = (if c \<in> set ''0123456789'' then Some (of_char c - 48) else None)"

definition strptime_HM :: "string \<Rightarrow> nat option" where
  "strptime_HM s =
     (case s of
        [a, b, c, d, e] \<Rightarrow>
          (case (digit_val a, digit_val b, digit_val d, digit_val e) of
             (Some a', Some b', Some d', Some e') \<Rightarrow>
               (let hh = 10 * a' + b'; mm = 10 * d' + e'
                in if c = CHR '':'' \<and> hh < 24 \<and> mm < 60 then Some (60 * hh + mm) else None)
           | _ \<Rightarrow> None)
      | _ \<Rightarrow> None)"

fun apply_strptime :: "series \<Rightarrow> (nat \<times> float64) list option" where
  "apply_strptime [] = Some []"
| "apply_strptime ((k, v) # s) =
     (case strptime_HM k of
        None \<Rightarrow> None
      | Some m \<Rightarrow> map_option ((#) (m, v)) (apply_strptime s))"

definition strftime_minutes :: "nat \<Rightarrow> string" where
  "strftime_minutes m = pad2 (m div 60) @ '':'' @ pad2 (m mod 60)"

fun join :: "string \<Rightarrow> string list \<Rightarrow> string" where
  "join sep [] = []"
| "join sep [x] = x"
| "join sep (x # y # ys) = x @ sep @ join sep (y # ys)"

definition top_trading_times_and_avg_profit_per_day ::
    "float_ops \<Rightarrow> int option \<Rightarrow> heap \<Rightarrow> nat \<Rightarrow> int \<Rightarrow> heap \<times> (error + string \<times> float64)" where
  "top_trading_times_and_avg_profit_per_day ops days h df n =
     (case deref h df of
        None \<Rightarrow> (h, Inl (NameError ''df''))
      | Some d \<Rightarrow>
         (case getitem d ''EntryTime'' of
            Inl e \<Rightarrow> (h, Inl e)
          | Inr (DatetimeCol ts) \<Rightarrow>
              (let hm = dt_strftime ts;
                   d' = setitem d ''EntryHourMinute'' (ObjectCol hm);
                   h' = h[df := d']
               in case getitem d' ''ProfitLossAfterSlippage'' of
                    Inl e \<Rightarrow> (h', Inl e)
                  | Inr (FloatCol ps) \<Rightarrow>
                      (let profit_per_time = times100 ops (groupby_sum ops hm ps);
                           top_times = nlargest n profit_per_time
                       in case apply_strptime top_times of
                            None \<Rightarrow> (h', Inl ValueError)
                          | Some parsed \<Rightarrow>
                              (let top_times = sort_key fst parsed
                               in if top_times = [] then (h', Inl AttributeError)
                                  else
                                    (let time_str =
                                           join '' ; '' (map (\<lambda>(m, v). strftime_minutes m) top_times)
                                     in case days of
                                          None \<Rightarrow> (h', Inl (NameError ''days''))
                                        | Some unique_days \<Rightarrow>
                                            (let avg_profit_per_day =
                                                   fdiv_int ops (fsum_series ops (map snd top_times))
                                                     unique_days;
                                                 avg_profit_per_day = fround_2 ops avg_profit_per_day
                                             in (h', Inr (time_str, avg_profit_per_day))))))
                  | Inr _ \<Rightarrow> (h', Inl TypeError))
          | Inr _ \<Rightarrow> (h, Inl AttributeError)))"

text \<open>
  The average in the words of its description. The entry times of day are the
  minutes after midnight at which some trade was entered; the total of an entry time
  is the sum, times 100, of \<^verbatim>\<open>ProfitLossAfterSlippage\<close> over the trades entered at
  that time, in row order. \<open>fle\<close> is the order in which the largest totals are chosen:
  the order of the numbers, with \<^verbatim>\<open>NaN\<close> below all of them.
\<close>

definition minute_of_day :: "timestamp \<Rightarrow> nat" where
  "minute_of_day t = 60 * hour_of t + minute_of t"

definition profits_at :: "timestamp option list \<Rightarrow> rat option list \<Rightarrow> nat \<Rightarrow> rat list" where
  "profits_at ts ps m =
     List.map_filter
       (\<lambda>(t, p). case t of None \<Rightarrow> None | Some t' \<Rightarrow> if minute_of_day t' = m then p else None)
       (zip ts ps)"

definition entry_minutes :: "timestamp option list \<Rightarrow> nat list" where
  "entry_minutes ts = remdups (map minute_of_day (List.map_filter (\<lambda>t. t) ts))"

definition time_totals ::
    "float_ops \<Rightarrow> timestamp option list \<Rightarrow> rat option list \<Rightarrow> (nat \<times> float64) list" where
  "time_totals ops ts ps =
     map (\<lambda>m. (m, fmul_100 ops (fsum_group ops (profits_at ts ps m)))) (entry_minutes ts)"

fun rank_key :: "float64 \<Rightarrow> nat \<times> rat" where
  "rank_key NaN = (0, 0)"
| "rank_key NegInf = (1, 0)"
| "rank_key (Finite x) = (2, x)"
| "rank_key PosInf = (3, 0)"

definition fle :: "float64 \<Rightarrow> float64 \<Rightarrow> bool" where
  "fle a b = (rank_key a \<le> rank_key b)"

text \<open>
  The five operations without rounding: sums, products and quotients of rationals,
  and rounding to two decimals, half to even. On binary fractions of moderate size,
  such as the values of the examples below, \<^verbatim>\<open>float64\<close> arithmetic is exact and
  agrees with them.
\<close>

fun exact_add :: "float64 \<Rightarrow> float64 \<Rightarrow> float64" where
  "exact_add (Finite x) (Finite y) = Finite (x + y)"
| "exact_add NaN b = NaN"
| "exact_add a NaN = NaN"
| "exact_add PosInf NegInf = NaN"
| "exact_add NegInf PosInf = NaN"
| "exact_add PosInf b = PosInf"
| "exact_add a PosInf = PosInf"
| "exact_add NegInf b = NegInf"
| "exact_add a NegInf = NegInf"

definition exact_sum :: "float64 list \<Rightarrow> float64" where
  "exact_sum xs = fold (\<lambda>x acc. exact_add acc x) (filter (\<lambda>x. x \<noteq> NaN) xs) (Finite 0)"

fun exact_mul_100 :: "float64 \<Rightarrow> float64" where
  "exact_mul_100 (Finite x) = Finite (x * 100)"
| "exact_mul_100 v = v"

fun exact_div :: "float64 \<Rightarrow> int \<Rightarrow> float64" where
  "exact_div (Finite x) d =
     (if d = 0 then (if x = 0 then NaN else if 0 < x then PosInf else NegInf)
      else Finite (x / of_int d))"
| "exact_div PosInf d = (if 0 \<le> d then PosInf else NegInf)"
| "exact_div NegInf d = (if 0 \<le> d then NegInf else PosInf)"
| "exact_div NaN d = NaN"

definition rint :: "rat \<Rightarrow> int" where
  "rint x =
     (let f = \<lfloor>x\<rfloor>; r = x - of_int f
      in if r < 1 / 2 then f else if 1 / 2 < r then f + 1 else if even f then f else f + 1)"

fun exact_round_2 :: "float64 \<Rightarrow> float64" where
  "exact_round_2 (Finite x) = Finite (of_int (rint (x * 100)) / 100)"
| "exact_round_2 v = v"

definition exact_ops :: float_ops where
  "exact_ops =
     \<lparr>fsum_group = (\<lambda>xs. Finite (sum_list xs)), fmul_100 = exact_mul_100,
      fsum_series = exact_sum, fdiv_int = exact_div, fround_2 = exact_round_2\<rparr>"

subsection \<open>The files of a notebook run\<close>

text \<open>
  Seen from its working directory, a run of the notebook (all three cells in order,
  V3 and V5 alike) is a fixed sequence of file operations with computations between
  them:
  \<^verbatim>\<open>
  !rm *.png *.html *.zip
  df = pd.read_csv("Trades.csv")
  df['EntryTime'] = pd.to_datetime(df['EntryTime']); ...
  for days in days_list:
      df_filtered = filter_data(df, days)
      filename = f'heatmap_{days}_days.png'
      plot_heatmap(df_filtered, ..., filename)         # plt.savefig(filename, format='png')
      ... rank_trading_times(df_filtered) ... top_trading_times_and_avg_profit_per_day(...)
  plot_heatmap_all_data(df, 'heatmap_all_data.png')   # plt.savefig(filename, format='png')
  ... rank_trading_times(df) ... rank_trading_days(df)
  pivot_table = ...; sns.heatmap(...); plt.savefig("heatmap_date_time.png")
  pivot_table = ...; sns.heatmap(...); plt.savefig("heatmap_dayofweek_time.png")
  with open('heatmap_report.html', 'w') as f:
      f.write(html_content)
  !zip archive.zip *.png *.html
  \<close>
  The directory is a list of named files, each name once, and it is writable:
  removing and writing a file succeed. Of a file the model keeps
  its kind; of a CSV file also the table that pandas reads from it, with the entry
  times as timestamps; of an archive the names of its members, in order. \<open>opened\<close>
  lists the files the run reads as input, \<open>written\<close> the files it writes.

  The computations between the file operations (parsing the dates, the pivot tables,
  the plots, the rankings) are the stages below. Whether a stage raises on a given
  table, for a missing column for instance, is decided inside pandas, matplotlib and
  seaborn; it is a parameter \<open>raises\<close> of the run. The run stops at the first
  exception, as the notebook does when its cells are run in order, and the directory
  is then left as it is at that point.
\<close>

function str_nat :: "nat \<Rightarrow> string" where
  "str_nat n = (if n < 10 then [digit n] else str_nat (n div 10) @ [digit (n mod 10)])"
  by pat_completeness auto
termination
  by (relation "measure (\<lambda>n. n)") auto

declare str_nat.simps [simp del]

definition str :: "int \<Rightarrow> string" where
  "str i = (if i < 0 then CHR ''-'' # str_nat (nat (- i)) else str_nat (nat i))"

datatype artifact = Table dataframe | Png | Html | Zip "string list"

record folder =
  entries :: "(string \<times> artifact) list"
  opened :: "string list"
  written :: "string list"

definition ends_with :: "string \<Rightarrow> string \<Rightarrow> bool" where
  "ends_with suffix name =
     (length suffix \<le> length name \<and> drop (length name - length suffix) name = suffix)"

text \<open>
  A shell pattern \<^verbatim>\<open>*.png\<close> matches the names with that ending that do not start
  with a dot. The shell replaces each pattern by the matching names in sorted order,
  one pattern after the other; a pattern that matches nothing contributes no file.
\<close>

definition matches :: "string \<Rightarrow> string \<Rightarrow> bool" where
  "matches suffix name = (take 1 name \<noteq> ''.'' \<and> ends_with suffix name)"

definition glob :: "string list \<Rightarrow> folder \<Rightarrow> string list" where
  "glob suffixes w = concat (map (\<lambda>s. sort (filter (matches s) (map fst (entries w)))) suffixes)"

definition sh_rm :: "string list \<Rightarrow> folder \<Rightarrow> folder" where
  "sh_rm suffixes w =
     w\<lparr>entries := filter (\<lambda>(name, f). name \<notin> set (glob suffixes w)) (entries w)\<rparr>"

text \<open>
  \<^verbatim>\<open>pd.read_csv\<close> raises \<^verbatim>\<open>FileNotFoundError\<close> when there is no such file. A
  file that is not a CSV table makes the first cell fail before anything is written:
  with an exception of the parser or the decoder in \<^verbatim>\<open>read_csv\<close>, or, should its
  bytes parse, at the first access to a column; one constructor stands for those.
\<close>

definition read_csv :: "string \<Rightarrow> folder \<Rightarrow> folder \<times> (error + dataframe)" where
  "read_csv name w =
     (case map_of (entries w) name of
        None \<Rightarrow> (w, Inl (FileNotFoundError name))
      | Some (Table t) \<Rightarrow> (w\<lparr>opened := opened w @ [name]\<rparr>, Inr t)
      | Some _ \<Rightarrow> (w\<lparr>opened := opened w @ [name]\<rparr>, Inl ParserError))"

definition write_file :: "string \<Rightarrow> artifact \<Rightarrow> folder \<Rightarrow> folder" where
  "write_file name f w =
     w\<lparr>entries := AList.update name f (entries w), written := written w @ [name]\<rparr>"

definition savefig :: "string \<Rightarrow> folder \<Rightarrow> folder" where
  "savefig filename w = write_file filename Png w"

definition sh_zip :: "string \<Rightarrow> string list \<Rightarrow> folder \<Rightarrow> folder" where
  "sh_zip archive suffixes w = write_file archive (Zip (glob suffixes w)) w"

definition days_list :: "int list" where
  "days_list = [90, 60, 45, 30, 20, 15, 10, 5]"

definition heatmap_filename :: "int \<Rightarrow> string" where
  "heatmap_filename days = ''heatmap_'' @ str days @ ''_days.png''"

text \<open>
  The stages of computation: after reading the file and before the loop; in the
  loop, before and after the plot of a window is saved; before and after the plot of
  all data is saved; before each of the last two plots is saved.
\<close>

datatype stage =
    Load
  | Plot_window int
  | Report_window int
  | Plot_all
  | Report_all
  | Plot_date_time
  | Plot_dayofweek

datatype step =
    Compute stage
  | Savefig string
  | Write_html string
  | Sh_zip string "string list"

fun raised :: "(stage \<Rightarrow> error option) \<Rightarrow> step \<Rightarrow> error option" where
  "raised raises (Compute st) = raises st"
| "raised raises s = None"

fun effect :: "step \<Rightarrow> folder \<Rightarrow> folder" where
  "effect (Compute st) w = w"
| "effect (Savefig filename) w = savefig filename w"
| "effect (Write_html name) w = write_file name Html w"
| "effect (Sh_zip archive suffixes) w = sh_zip archive suffixes w"

fun run_steps :: "(stage \<Rightarrow> error option) \<Rightarrow> step list \<Rightarrow> folder \<Rightarrow> folder \<times> error option" where
  "run_steps raises [] w = (w, None)"
| "run_steps raises (s # ss) w =
     (case raised raises s of
        Some e \<Rightarrow> (w, Some e)
      | None \<Rightarrow> run_steps raises ss (effect s w))"

definition window_steps :: "int \<Rightarrow> step list" where
  "window_steps days =
     [Compute (Plot_window days), Savefig (heatmap_filename days), Compute (Report_window days)]"

definition cells :: "step list" where
  "cells =
     [Compute Load]
     @ concat (map window_steps days_list)
     @ [Compute Plot_all, Savefig ''heatmap_all_data.png'', Compute Report_all,
        Compute Plot_date_time, Savefig ''heatmap_date_time.png'',
        Compute Plot_dayofweek, Savefig ''heatmap_dayofweek_time.png'',
        Write_html ''heatmap_report.html'',
        Sh_zip ''archive.zip'' [''.png'', ''.html'']]"

definition notebook :: "(dataframe \<Rightarrow> stage \<Rightarrow> error option) \<Rightarrow> folder \<Rightarrow> folder \<times> error option" where
  "notebook raises w =
     (let w = sh_rm [''.png'', ''.html'', ''.zip''] w
      in case read_csv ''Trades.csv'' w of
           (w, Inl e) \<Rightarrow> (w, Some e)
         | (w, Inr df) \<Rightarrow> run_steps (raises df) cells w)"





section \<open>Example inputs\<close>

text \<open>
  A trade log of four trades: 2023-06-05 21:20, one without entry time,
  2023-06-17 11:06:40 and 2023-06-16 11:06:40.
\<close>

definition times0 :: "timestamp option list" where
  "times0 = [Some 1686000000000000000, None, Some 1687000000000000000, Some 1686913600000000000]"

definition trades0 :: dataframe where
  "trades0 = \<lparr>index = [0, 1, 2, 3],
     columns = [(''EntryTime'', DatetimeCol times0),
                (''ProfitLossAfterSlippage'', FloatCol [Some 1, Some 2, None, Some (-3)])]\<rparr>"

text \<open>
  A trade log of six trades on four days: 2023-06-05 21:20, 2023-06-16 11:06:40,
  2023-06-17 11:06:40, 2023-06-05 21:21, one without entry time, and
  2023-06-06 21:20.
\<close>

definition times1 :: "timestamp option list" where
  "times1 = [Some 1686000000000000000, Some 1686913600000000000, Some 1687000000000000000,
             Some 1686000060000000000, None, Some 1686086400000000000]"

definition profits1 :: "rat option list" where
  "profits1 = [Some (5 / 4), Some (- 1 / 2), Some 2, None, Some 7, Some (1 / 8)]"

definition trades1 :: dataframe where
  "trades1 = \<lparr>index = [0, 1, 2, 3, 4, 5],
     columns = [(''EntryTime'', DatetimeCol times1),
                (''ProfitLossAfterSlippage'', FloatCol profits1)]\<rparr>"

text \<open>
  The four trades of \<open>trades0\<close> with a third column, of strings.
\<close>

definition trades2 :: dataframe where
  "trades2 = \<lparr>index = [0, 1, 2, 3],
     columns = [(''EntryTime'', DatetimeCol times0),
                (''ProfitLossAfterSlippage'', FloatCol [Some 1, Some 2, None, Some (-3)]),
                (''Strategy'', ObjectCol [Some ''EMA520'', Some ''EMA520'', None, Some ''EMA540''])]\<rparr>"



section \<open>Properties of \<^verbatim>\<open>filter_data\<close>\<close>

lemma valid_Nil: "valid [] = {}"
  by (simp add: valid_def List.map_filter_simps)

lemma valid_None: "valid (None # xs) = valid xs"
  by (simp add: valid_def List.map_filter_simps)

lemma valid_Some: "valid (Some t # xs) = insert t (valid xs)"
  by (simp add: valid_def List.map_filter_simps)

lemma finite_valid: "finite (valid xs)"
  by (simp add: valid_def)

lemma valid_iff: "t \<in> valid xs \<longleftrightarrow> Some t \<in> set xs"
  by (induction xs) (simp add: valid_Nil, case_tac a, auto simp: valid_None valid_Some)

lemma select_map:
  "select (map P ts) xs = map fst (filter (\<lambda>(x, t). P t) (zip xs ts))"
proof (induction xs arbitrary: ts)
  case Nil
  then show ?case by (simp add: select_def)
next
  case (Cons x xs)
  then show ?case by (cases ts) (simp_all add: select_def)
qed

text \<open>The running maximum of the reduction is the maximum of the entry times seen.\<close>

lemma fold_later:
  "fold later xs acc =
     (if valid xs = {} then acc
      else Some (case acc of None \<Rightarrow> Max (valid xs) | Some a \<Rightarrow> max a (Max (valid xs))))"
proof (induction xs arbitrary: acc)
  case Nil
  then show ?case by (simp add: valid_Nil)
next
  case (Cons x xs)
  show ?case
  proof (cases x)
    case None
    show ?thesis unfolding None using Cons.IH [of acc]
      by (cases acc) (simp_all add: valid_None)
  next
    case (Some t)
    show ?thesis
    proof (cases "valid xs = {}")
      case True
      show ?thesis unfolding Some using True Cons.IH [of "later (Some t) acc"]
        by (cases acc) (simp_all add: valid_Some)
    next
      case False
      then have "Max (insert t (valid xs)) = max t (Max (valid xs))"
        using finite_valid [of xs] by simp
      then show ?thesis unfolding Some using False Cons.IH [of "later (Some t) acc"]
        by (cases acc) (simp_all add: valid_Some max.assoc max.commute)
    qed
  qed
qed

lemma series_max_latest:
  "series_max ts = (if valid ts = {} then None else Some (latest ts))"
  by (simp add: series_max_def latest_def fold_later)

text \<open>
  Inside the range of \<^verbatim>\<open>datetime64[ns]\<close> the subtraction of the offset is plain
  subtraction of \<open>days\<close> times 24 hours.
\<close>

lemma sub_DateOffset_representable:
  assumes "representable x" and "representable (x - days * day_ns)"
  shows "sub_DateOffset (Some x) days = Inr (Some (x - days * day_ns))"
proof -
  let ?s = "x - days * 86400000000000"
  from assms have x: "- 9223372036854775808 < x" "x < 9223372036854775808"
    and s: "- 9223372036854775808 < ?s" "?s < 9223372036854775808"
    by (simp_all add: representable_def day_ns_def)
  have d: "\<bar>days\<bar> \<le> 999999999"
    using x s by linarith
  have m: "x div 1000 * 1000 \<le> x" "x < x div 1000 * 1000 + 1000"
    by presburger+
  have u: "- 62135596800000000 \<le> x div 1000 - days * 86400000000"
    "x div 1000 - days * 86400000000 \<le> 253402300799999999"
    using m s by linarith+
  show ?thesis
    using d u s
    by (simp add: sub_DateOffset_def Let_def day_ns_def day_us_def datetime_min_us_def
        datetime_max_us_def Timestamp_min_def Timestamp_max_def)
qed

lemma window_start:
  assumes "window_start_representable ts days"
  shows "sub_DateOffset (series_max ts) days =
           Inr (if valid ts = {} then None else Some (latest ts - days * day_ns))"
proof (cases "valid ts = {}")
  case True
  then show ?thesis by (simp add: series_max_latest sub_DateOffset_def)
next
  case False
  with assms have "representable (latest ts)" "representable (latest ts - days * day_ns)"
    by (simp_all add: window_start_representable_def)
  then have "sub_DateOffset (Some (latest ts)) days = Inr (Some (latest ts - days * day_ns))"
    by (rule sub_DateOffset_representable)
  with False show ?thesis by (simp add: series_max_latest)
qed

lemma mask_in_window:
  assumes "x \<in> set ts"
  shows "(ts_le (if valid ts = {} then None else Some (latest ts - days * day_ns)) x
          \<and> ts_le x (series_max ts))
         = in_window ts days x"
proof (cases x)
  case None
  then show ?thesis by (simp add: in_window_def)
next
  case (Some t)
  with assms have "t \<in> valid ts" by (simp add: valid_iff)
  then have "valid ts \<noteq> {}" by auto
  then show ?thesis
    by (simp add: Some in_window_def series_max_latest)
qed

lemma take_rows_in_window:
  "take_rows (map (in_window ts days) ts) col = column_in_window ts days col"
  by (cases col) (simp_all add: select_map rows_in_window_def)

text \<open>
  Claim C8, as amended. For a dataframe \<open>d\<close> with a datetime column \<open>EntryTime\<close> and
  a number of days for which the start of the window, the latest entry time minus
  \<open>days\<close> days, is still a timestamp of \<^verbatim>\<open>datetime64[ns]\<close>, \<open>filter_data\<close> returns a
  new object that holds exactly the rows of \<open>d\<close> whose entry time lies in the closed
  interval from that start to the latest entry time (a row without entry time lies
  in no interval): the row labels and every column of \<open>d\<close>, restricted to those rows,
  under the same names and in the same order. The new object is at a fresh
  reference, so the store still holds \<open>d\<close>, unmodified, at the reference that was
  passed in.
\<close>

theorem filter_data_window:
  assumes "deref h df = Some d"
    and "getitem d ''EntryTime'' = Inr (DatetimeCol ts)"
    and "window_start_representable ts days"
  shows "\<exists>d'. filter_data h df days = (h @ [d'], Inr (length h))
           \<and> index d' = rows_in_window ts days (index d)
           \<and> columns d' = map (\<lambda>(c, col). (c, column_in_window ts days col)) (columns d)
           \<and> deref (fst (filter_data h df days)) df = Some d
           \<and> length h \<noteq> df"
proof -
  let ?start = "if valid ts = {} then None else Some (latest ts - days * day_ns)"
  let ?d' = "loc d (map (in_window ts days) ts)"
  have s: "sub_DateOffset (series_max ts) days = Inr ?start"
    using assms(3) by (rule window_start)
  have m: "map (\<lambda>t. ts_le ?start t \<and> ts_le t (series_max ts)) ts = map (in_window ts days) ts"
    by (rule map_cong) (simp_all only: mask_in_window)
  have g: "getitem d ''EntryTime'' = Inr (DatetimeCol ts)" by (rule assms(2))
  from assms(1) have lt: "df < length h" and d: "h ! df = d"
    by (auto simp: deref_def split: if_splits)
  have fd: "filter_data h df days = (h @ [?d'], Inr (length h))"
    unfolding filter_data_def Let_def alloc_def by (simp add: assms(1) g s m)
  moreover have "index ?d' = rows_in_window ts days (index d)"
    by (simp add: loc_def select_map rows_in_window_def)
  moreover have "columns ?d' = map (\<lambda>(c, col). (c, column_in_window ts days col)) (columns d)"
    by (simp add: loc_def take_rows_in_window)
  moreover have "deref (h @ [?d']) df = Some d"
    using lt d by (simp add: deref_def nth_append)
  ultimately show ?thesis using lt by simp
qed

text \<open>
  At the four trades of \<open>trades2\<close> and a window of one day: the latest entry time is
  2023-06-17 11:06:40, and the two trades of 16 and 17 June are kept, with all three
  columns.
\<close>

theorem filter_data_window_witness:
  "deref [trades2] 0 = Some trades2
   \<and> getitem trades2 ''EntryTime'' = Inr (DatetimeCol times0)
   \<and> window_start_representable times0 1
   \<and> filter_data [trades2] 0 1 =
       ([trades2,
         \<lparr>index = [2, 3],
          columns = [(''EntryTime'', DatetimeCol [Some 1687000000000000000, Some 1686913600000000000]),
                     (''ProfitLossAfterSlippage'', FloatCol [None, Some (-3)]),
                     (''Strategy'', ObjectCol [None, Some ''EMA540''])]\<rparr>],
        Inr 1)"
proof -
  have a: "deref [trades2] 0 = Some trades2" by (simp add: deref_def)
  have b: "getitem trades2 ''EntryTime'' = Inr (DatetimeCol times0)"
    by (simp add: getitem_def trades2_def)
  have l: "latest times0 = 1687000000000000000"
    by (simp add: latest_def times0_def valid_None valid_Some valid_Nil)
  have r: "window_start_representable times0 1"
    by (simp add: window_start_representable_def representable_def l day_ns_def)
  have i: "rows_in_window times0 1 (index trades2) = [2, 3]"
    by code_simp
  have c: "map (\<lambda>(c, col). (c, column_in_window times0 1 col)) (columns trades2) =
      [(''EntryTime'', DatetimeCol [Some 1687000000000000000, Some 1686913600000000000]),
       (''ProfitLossAfterSlippage'', FloatCol [None, Some (-3)]),
       (''Strategy'', ObjectCol [None, Some ''EMA540''])]"
    by code_simp
  from filter_data_window [OF a b r] obtain d' where
    f: "filter_data [trades2] 0 1 = ([trades2] @ [d'], Inr (length [trades2]))"
    and "index d' = rows_in_window times0 1 (index trades2)"
    and "columns d' = map (\<lambda>(c, col). (c, column_in_window times0 1 col)) (columns trades2)"
    by blast
  then have "d' = \<lparr>index = [2, 3],
          columns = [(''EntryTime'', DatetimeCol [Some 1687000000000000000, Some 1686913600000000000]),
                     (''ProfitLossAfterSlippage'', FloatCol [None, Some (-3)]),
                     (''Strategy'', ObjectCol [None, Some ''EMA540''])]\<rparr>"
    by (intro dataframe.equality) (simp_all add: i c)
  with f a b r show ?thesis by simp
qed

text \<open>
  Claim C8 as stated, for every non-negative number of days, fails at
  \<open>days = 200000\<close> on the four trades of \<open>trades0\<close>: the start of the window would be
  in the year 1475, before the first timestamp of \<^verbatim>\<open>datetime64[ns]\<close>, and the
  subtraction raises instead of returning rows.
\<close>

theorem filter_data_window_counterexample:
  "filter_data [trades0] 0 200000 = ([trades0], Inl OutOfBoundsDatetime)"
  by code_simp

section \<open>Properties of \<^verbatim>\<open>rank_trading_times\<close>\<close>

lemma getitem_setitem:
  "getitem (setitem d k col) c = (if c = k then Inr col else getitem d c)"
  by (simp add: getitem_def setitem_def update_conv')

lemma index_setitem: "index (setitem d k col) = index d"
  by (simp add: setitem_def)

lemma deref_update:
  "deref (h[r := d]) q = (if q = r \<and> r < length h then Some d else deref h q)"
  by (simp add: deref_def)

text \<open>
  Claim C9. A call of \<open>rank_trading_times\<close> on a dataframe \<open>d\<close> with a datetime column
  \<open>EntryTime\<close> changes the very object it was given (the store has no new object, and
  at the reference passed in it holds the changed one): the column
  \<open>EntryHourMinute\<close> now holds the HH:MM rendering of each entry time, replacing a
  column of that name where it stood or added after the other columns. Every other
  column, the row labels and every other object of the store are as before. This holds
  whether or not the rest of the function then succeeds, and whatever the float
  operations compute.
\<close>

theorem rank_trading_times_mutates_input:
  assumes "deref h df = Some d"
    and "getitem d ''EntryTime'' = Inr (DatetimeCol ts)"
  shows "\<exists>d'. fst (rank_trading_times ops h df) = h[df := d']
           \<and> deref (fst (rank_trading_times ops h df)) df = Some d'
           \<and> columns d' = AList.update ''EntryHourMinute''
                             (ObjectCol (map (map_option strftime_HM) ts)) (columns d)
           \<and> map fst (columns d') =
               (if ''EntryHourMinute'' \<in> set (map fst (columns d)) then map fst (columns d)
                else map fst (columns d) @ [''EntryHourMinute''])
           \<and> getitem d' ''EntryHourMinute'' = Inr (ObjectCol (map (map_option strftime_HM) ts))
           \<and> (\<forall>c. c \<noteq> ''EntryHourMinute'' \<longrightarrow> getitem d' c = getitem d c)
           \<and> index d' = index d
           \<and> (\<forall>r. r \<noteq> df \<longrightarrow> deref (fst (rank_trading_times ops h df)) r = deref h r)
           \<and> length (fst (rank_trading_times ops h df)) = length h"
proof -
  let ?col = "ObjectCol (map (map_option strftime_HM) ts)"
  let ?d' = "setitem d ''EntryHourMinute'' ?col"
  from assms(1) have lt: "df < length h"
    by (simp add: deref_def split: if_splits)
  have f: "fst (rank_trading_times ops h df) = h[df := ?d']"
    unfolding rank_trading_times_def Let_def
    by (simp add: assms dt_strftime_def split: sum.splits column.splits)
  have "deref (h[df := ?d']) df = Some ?d'"
    using lt by (simp add: deref_update)
  moreover have "columns ?d' = AList.update ''EntryHourMinute'' ?col (columns d)"
    by (simp add: setitem_def)
  moreover have "map fst (columns ?d') =
      (if ''EntryHourMinute'' \<in> set (map fst (columns d)) then map fst (columns d)
       else map fst (columns d) @ [''EntryHourMinute''])"
    by (simp add: setitem_def update_keys)
  moreover have "getitem ?d' ''EntryHourMinute'' = Inr ?col"
    by (simp add: getitem_setitem)
  moreover have "\<forall>c. c \<noteq> ''EntryHourMinute'' \<longrightarrow> getitem ?d' c = getitem d c"
    by (simp add: getitem_setitem)
  moreover have "index ?d' = index d"
    by (rule index_setitem)
  moreover have "\<forall>r. r \<noteq> df \<longrightarrow> deref (h[df := ?d']) r = deref h r"
    by (simp add: deref_update)
  ultimately show ?thesis
    unfolding f by (intro exI [of _ ?d']) simp
qed

theorem rank_trading_times_mutates_input_witness:
  "deref [trades0] 0 = Some trades0
   \<and> getitem trades0 ''EntryTime'' = Inr (DatetimeCol times0)
   \<and> fst (rank_trading_times exact_ops [trades0] 0) =
       [\<lparr>index = [0, 1, 2, 3],
         columns = [(''EntryTime'', DatetimeCol times0),
                    (''ProfitLossAfterSlippage'', FloatCol [Some 1, Some 2, None, Some (-3)]),
                    (''EntryHourMinute'',
                     ObjectCol [Some ''21:20'', None, Some ''11:06'', Some ''11:06''])]\<rparr>]"
proof -
  have a: "deref [trades0] 0 = Some trades0" by (simp add: deref_def)
  have b: "getitem trades0 ''EntryTime'' = Inr (DatetimeCol times0)"
    by (simp add: getitem_def trades0_def)
  have r: "map (map_option strftime_HM) times0 = [Some ''21:20'', None, Some ''11:06'', Some ''11:06'']"
    by (simp add: times0_def strftime_HM_def pad2_def digit_def hour_of_def minute_of_def)
  from rank_trading_times_mutates_input [OF a b, of exact_ops] obtain d' where
    f: "fst (rank_trading_times exact_ops [trades0] 0) = [trades0][0 := d']"
    and c: "columns d' = AList.update ''EntryHourMinute''
              (ObjectCol (map (map_option strftime_HM) times0)) (columns trades0)"
    and i: "index d' = index trades0"
    by blast
  have "d' = \<lparr>index = [0, 1, 2, 3],
         columns = [(''EntryTime'', DatetimeCol times0),
                    (''ProfitLossAfterSlippage'', FloatCol [Some 1, Some 2, None, Some (-3)]),
                    (''EntryHourMinute'',
                     ObjectCol [Some ''21:20'', None, Some ''11:06'', Some ''11:06''])]\<rparr>"
    by (rule dataframe.equality) (simp_all add: c i r, simp_all add: trades0_def)
  with f a b show ?thesis by simp
qed

section \<open>Properties of \<^verbatim>\<open>top_trading_times_and_avg_profit_per_day\<close>\<close>

subsection \<open>Parsing back what \<^verbatim>\<open>strftime\<close> rendered\<close>

lemma digit_val_digit: "n < 10 \<Longrightarrow> digit_val (digit n) = Some n"
proof -
  assume "n < 10"
  then consider "n = 0" | "n = 1" | "n = 2" | "n = 3" | "n = 4"
    | "n = 5" | "n = 6" | "n = 7" | "n = 8" | "n = 9"
    by atomize_elim arith
  then show ?thesis
    by cases (simp_all add: digit_val_def digit_def)
qed

lemma strptime_strftime: "strptime_HM (strftime_HM t) = Some (minute_of_day t)"
proof -
  have h: "hour_of t < 24" and m: "minute_of t < 60"
    by (simp_all add: hour_of_def minute_of_def)
  have "hour_of t div 10 < 10" "hour_of t mod 10 < 10"
    "minute_of t div 10 < 10" "minute_of t mod 10 < 10"
    using h m by simp_all
  then show ?thesis using h m
    by (simp add: strptime_HM_def strftime_HM_def pad2_def digit_val_digit minute_of_day_def)
qed

lemma strftime_minute_of_day: "strftime_HM t = strftime_minutes (minute_of_day t)"
proof -
  have "minute_of t < 60"
    by (simp add: minute_of_def)
  then show ?thesis
    by (simp add: strftime_HM_def strftime_minutes_def minute_of_day_def)
qed

lemma strftime_eq_iff: "strftime_HM t = strftime_HM u \<longleftrightarrow> minute_of_day t = minute_of_day u"
proof
  assume "strftime_HM t = strftime_HM u"
  then have "strptime_HM (strftime_HM t) = strptime_HM (strftime_HM u)" by simp
  then show "minute_of_day t = minute_of_day u" by (simp add: strptime_strftime)
next
  assume "minute_of_day t = minute_of_day u"
  then show "strftime_HM t = strftime_HM u" by (simp add: strftime_minute_of_day)
qed

lemma apply_strptime_map:
  "(\<And>k v. (k, v) \<in> set s \<Longrightarrow> \<exists>t. k = strftime_HM t)
   \<Longrightarrow> apply_strptime s = Some (map (\<lambda>(k, v). (the (strptime_HM k), v)) s)"
proof (induction s)
  case Nil
  then show ?case by simp
next
  case (Cons a s)
  obtain k v where a: "a = (k, v)" by (cases a)
  from Cons.prems [of k v] a obtain t where k: "k = strftime_HM t" by auto
  from Cons.IH Cons.prems
  have "apply_strptime s = Some (map (\<lambda>(k, v). (the (strptime_HM k), v)) s)"
    by auto
  then show ?case unfolding a k by (simp add: strptime_strftime)
qed

subsection \<open>The largest values of a series\<close>

lemma fle_desc_key: "desc_key a \<le> desc_key b \<longleftrightarrow> fle b a"
  by (cases a; cases b) (simp_all add: fle_def)

lemma sort_key_Nil_iff: "sort_key f xs = [] \<longleftrightarrow> xs = []"
  by (metis length_sort length_0_conv)

lemma sorted_take_drop:
  assumes "sorted (map f xs)" and "a \<in> set (take n xs)" and "b \<in> set (drop n xs)"
  shows "f a \<le> f b"
proof -
  have "map f xs = map f (take n xs) @ map f (drop n xs)"
    by (simp flip: map_append)
  with assms(1) have "sorted (map f (take n xs) @ map f (drop n xs))" by simp
  then show ?thesis using assms(2,3) by (auto simp: sorted_append)
qed

lemma distinct_keys_sort_key:
  "distinct (map fst (sort_key f xs)) \<longleftrightarrow> distinct (map fst xs)"
  by (simp add: distinct_map)

lemma nlargest_subset: "set (nlargest n s) \<subseteq> set s"
proof (cases "n \<le> 0")
  case True
  then show ?thesis by (simp add: nlargest_def)
next
  case False
  have "set (take (nat n) (sort_key (\<lambda>(k, v). desc_key v) s))
        \<subseteq> set (sort_key (\<lambda>(k, v). desc_key v) s)"
    by (rule set_take_subset)
  with False show ?thesis by (simp add: nlargest_def)
qed

lemma nlargest_length: "0 < n \<Longrightarrow> length (nlargest n s) = min (nat n) (length s)"
  by (simp add: nlargest_def)

lemma nlargest_distinct:
  assumes "distinct (map fst s)"
  shows "distinct (map fst (nlargest n s))"
proof (cases "n \<le> 0")
  case True
  then show ?thesis by (simp add: nlargest_def)
next
  case False
  from assms have "distinct (map fst (sort_key (\<lambda>(k, v). desc_key v) s))"
    by (simp only: distinct_keys_sort_key)
  then have "distinct (take (nat n) (map fst (sort_key (\<lambda>(k, v). desc_key v) s)))"
    by (rule distinct_take)
  with False show ?thesis by (simp add: nlargest_def take_map)
qed

text \<open>What \<^verbatim>\<open>nlargest\<close> leaves out is not larger than what it selects.\<close>

lemma nlargest_select:
  assumes "0 < n" and "x \<in> set (nlargest n s)" and "y \<in> set s" and "y \<notin> set (nlargest n s)"
  shows "fle (snd y) (snd x)"
proof -
  let ?S = "sort_key (\<lambda>(k, v). desc_key v) s"
  from assms(1,2,4) have x: "x \<in> set (take (nat n) ?S)" and ny: "y \<notin> set (take (nat n) ?S)"
    by (simp_all add: nlargest_def)
  have "set ?S = set (take (nat n) ?S) \<union> set (drop (nat n) ?S)"
    by (metis append_take_drop_id set_append)
  with assms(3) ny have y: "y \<in> set (drop (nat n) ?S)" by simp
  have "sorted (map (\<lambda>(k, v). desc_key v) ?S)" by (rule sorted_sort_key)
  from sorted_take_drop [OF this x y] show ?thesis
    by (simp add: case_prod_unfold fle_desc_key)
qed

subsection \<open>The groups are the entry times of day\<close>

lemma map_filter_strftime:
  "List.map_filter (\<lambda>k. k) (dt_strftime ts) = map strftime_HM (List.map_filter (\<lambda>t. t) ts)"
  by (induction ts) (auto simp: dt_strftime_def List.map_filter_simps split: option.splits)

lemma group_values_profits_at:
  "group_values (dt_strftime ts) ps (strftime_HM t) = profits_at ts ps (minute_of_day t)"
proof (induction ts arbitrary: ps)
  case Nil
  then show ?case
    by (simp add: group_values_def profits_at_def dt_strftime_def List.map_filter_simps)
next
  case (Cons u ts)
  show ?case
  proof (cases ps)
    case Nil
    then show ?thesis
      by (simp add: group_values_def profits_at_def dt_strftime_def List.map_filter_simps)
  next
    case (Cons p ps')
    have "group_values (dt_strftime ts) ps' (strftime_HM t) = profits_at ts ps' (minute_of_day t)"
      by (rule Cons.IH)
    then show ?thesis unfolding Cons
      by (cases u; cases p)
         (auto simp: group_values_def profits_at_def dt_strftime_def List.map_filter_simps
            strftime_eq_iff)
  qed
qed

lemma group_keys_strftime:
  "set (group_keys (dt_strftime ts)) = strftime_HM ` valid ts"
  by (simp add: group_keys_def map_filter_strftime valid_def)

lemma profit_per_time_iff:
  "(k, v) \<in> set (times100 ops (groupby_sum ops (dt_strftime ts) ps)) \<longleftrightarrow>
     (\<exists>t \<in> valid ts. k = strftime_HM t
        \<and> v = fmul_100 ops (fsum_group ops (profits_at ts ps (minute_of_day t))))"
proof -
  have "(k, v) \<in> set (times100 ops (groupby_sum ops (dt_strftime ts) ps)) \<longleftrightarrow>
      k \<in> set (group_keys (dt_strftime ts))
      \<and> v = fmul_100 ops (fsum_group ops (group_values (dt_strftime ts) ps k))"
    by (auto simp: times100_def groupby_sum_def)
  then show ?thesis
    by (auto simp: group_keys_strftime group_values_profits_at)
qed

lemma time_totals_iff:
  "(m, v) \<in> set (time_totals ops ts ps) \<longleftrightarrow>
     (\<exists>t \<in> valid ts. m = minute_of_day t
        \<and> v = fmul_100 ops (fsum_group ops (profits_at ts ps (minute_of_day t))))"
  by (auto simp: time_totals_def entry_minutes_def valid_def)

lemma parsed_totals:
  "(\<lambda>(k, v). (the (strptime_HM k), v)) ` set (times100 ops (groupby_sum ops (dt_strftime ts) ps))
   = set (time_totals ops ts ps)"
proof (intro set_eqI iffI)
  fix y
  assume "y \<in> (\<lambda>(k, v). (the (strptime_HM k), v)) `
                set (times100 ops (groupby_sum ops (dt_strftime ts) ps))"
  then obtain k v where y: "y = (the (strptime_HM k), v)"
    and "(k, v) \<in> set (times100 ops (groupby_sum ops (dt_strftime ts) ps))"
    by auto
  then obtain t where "t \<in> valid ts" "k = strftime_HM t"
    "v = fmul_100 ops (fsum_group ops (profits_at ts ps (minute_of_day t)))"
    by (auto simp: profit_per_time_iff)
  then show "y \<in> set (time_totals ops ts ps)"
    unfolding y by (auto simp: time_totals_iff strptime_strftime)
next
  fix y
  assume a: "y \<in> set (time_totals ops ts ps)"
  obtain m v where mv: "y = (m, v)" by (cases y)
  with a obtain t where t: "t \<in> valid ts"
    and y: "y = (minute_of_day t, fmul_100 ops (fsum_group ops (profits_at ts ps (minute_of_day t))))"
    by (auto simp: time_totals_iff)
  from t have "(strftime_HM t, fmul_100 ops (fsum_group ops (profits_at ts ps (minute_of_day t))))
      \<in> set (times100 ops (groupby_sum ops (dt_strftime ts) ps))"
    by (auto simp: profit_per_time_iff)
  then have "(\<lambda>(k, v). (the (strptime_HM k), v))
       (strftime_HM t, fmul_100 ops (fsum_group ops (profits_at ts ps (minute_of_day t))))
      \<in> (\<lambda>(k, v). (the (strptime_HM k), v)) `
          set (times100 ops (groupby_sum ops (dt_strftime ts) ps))"
    by (rule imageI)
  then show "y \<in> (\<lambda>(k, v). (the (strptime_HM k), v)) `
                set (times100 ops (groupby_sum ops (dt_strftime ts) ps))"
    unfolding y by (simp add: strptime_strftime)
qed

lemma profit_per_time_keys:
  "map fst (times100 ops (groupby_sum ops hm ps)) = group_keys hm"
  by (simp add: times100_def groupby_sum_def comp_def)

lemma profit_per_time_distinct:
  "distinct (map fst (times100 ops (groupby_sum ops hm ps)))"
  by (simp add: profit_per_time_keys group_keys_def)

lemma length_totals:
  "length (times100 ops (groupby_sum ops (dt_strftime ts) ps)) = length (time_totals ops ts ps)"
proof -
  have i: "inj_on strftime_minutes (minute_of_day ` valid ts)"
    by (auto simp: inj_on_def strftime_minute_of_day [symmetric] strftime_eq_iff)
  have "strftime_HM ` valid ts = strftime_minutes ` (minute_of_day ` valid ts)"
    by (auto simp: strftime_minute_of_day image_iff)
  then have "card (strftime_HM ` valid ts) = card (minute_of_day ` valid ts)"
    using card_image [OF i] by simp
  moreover have "length (times100 ops (groupby_sum ops (dt_strftime ts) ps))
      = card (strftime_HM ` valid ts)"
    by (simp add: times100_def groupby_sum_def group_keys_def map_filter_strftime valid_def
        length_remdups_card_conv)
  moreover have "length (time_totals ops ts ps) = card (minute_of_day ` valid ts)"
    by (simp add: time_totals_def entry_minutes_def valid_def length_remdups_card_conv)
  ultimately show ?thesis by simp
qed

lemma parse_inj:
  "inj_on (\<lambda>k. the (strptime_HM k)) (strftime_HM ` S)"
  by (auto simp: inj_on_def strptime_strftime strftime_eq_iff)

subsection \<open>The average\<close>

text \<open>
  Claim C10, as amended. For a dataframe with a datetime column \<open>EntryTime\<close> that
  holds at least one entry time and a float column \<open>ProfitLossAfterSlippage\<close>, for
  \<open>n \<ge> 1\<close> and with the global \<open>days\<close> defined, the function returns the times and the
  average of a selection \<open>sel\<close> of the per-entry-time totals (each the sum of
  \<open>ProfitLossAfterSlippage\<close> over the trades entered at that time of day, times 100):
  \<^item> \<open>sel\<close> holds \<open>n\<close> of the totals, or all of them when there are fewer, each entry
    time once and in ascending order of the time;
  \<^item> no total left out is larger than a total in \<open>sel\<close>;
  \<^item> the average is the sum of the totals in \<open>sel\<close>, divided by the global \<open>days\<close> and
    then rounded with \<^verbatim>\<open>round(x, 2)\<close>, all three in float arithmetic.

  Nothing else of the dataframe enters the divisor; in particular the number of
  distinct trading days in it does not.
\<close>

theorem avg_profit_per_day_divides_by_days:
  assumes "deref h df = Some d"
    and "getitem d ''EntryTime'' = Inr (DatetimeCol ts)"
    and "getitem d ''ProfitLossAfterSlippage'' = Inr (FloatCol ps)"
    and "0 < n"
    and "valid ts \<noteq> {}"
  shows "\<exists>sel.
           snd (top_trading_times_and_avg_profit_per_day ops (Some days) h df n) =
             Inr (join '' ; '' (map (\<lambda>(m, v). strftime_minutes m) sel),
                  fround_2 ops (fdiv_int ops (fsum_series ops (map snd sel)) days))
           \<and> sorted (map fst sel) \<and> distinct (map fst sel)
           \<and> set sel \<subseteq> set (time_totals ops ts ps)
           \<and> length sel = min (nat n) (length (time_totals ops ts ps))
           \<and> (\<forall>x \<in> set sel. \<forall>y \<in> set (time_totals ops ts ps).
                 y \<notin> set sel \<longrightarrow> fle (snd y) (snd x))"
proof -
  let ?hm = "dt_strftime ts"
  let ?d' = "setitem d ''EntryHourMinute'' (ObjectCol ?hm)"
  let ?ppt = "times100 ops (groupby_sum ops ?hm ps)"
  let ?top = "nlargest n ?ppt"
  let ?par = "\<lambda>(k, v). (the (strptime_HM k), v :: float64)"
  let ?sel = "sort_key fst (map ?par ?top)"
  have g: "getitem ?d' ''ProfitLossAfterSlippage'' = Inr (FloatCol ps)"
    using assms(3) by (simp add: getitem_setitem)
  have sub: "set ?top \<subseteq> set ?ppt"
    by (rule nlargest_subset)
  have "\<And>k v. (k, v) \<in> set ?top \<Longrightarrow> \<exists>t. k = strftime_HM t"
    using sub profit_per_time_iff [of _ _ ops ts ps] by blast
  then have p: "apply_strptime ?top = Some (map ?par ?top)"
    by (rule apply_strptime_map)
  have len: "length ?top = min (nat n) (length (time_totals ops ts ps))"
    using assms(4) by (simp only: nlargest_length length_totals)
  from assms(5) obtain t where "t \<in> valid ts" by auto
  then have "(minute_of_day t, fmul_100 ops (fsum_group ops (profits_at ts ps (minute_of_day t))))
      \<in> set (time_totals ops ts ps)"
    by (auto simp: time_totals_iff)
  then have "0 < length (time_totals ops ts ps)"
    by (cases "time_totals ops ts ps") simp_all
  with len assms(4) have "0 < length ?top" by simp
  then have ne: "?sel \<noteq> []"
    by (simp add: sort_key_Nil_iff)
  have res: "snd (top_trading_times_and_avg_profit_per_day ops (Some days) h df n) =
      Inr (join '' ; '' (map (\<lambda>(m, v). strftime_minutes m) ?sel),
           fround_2 ops (fdiv_int ops (fsum_series ops (map snd ?sel)) days))"
    unfolding top_trading_times_and_avg_profit_per_day_def Let_def
    by (simp add: assms(1,2) g p ne)
  have srt: "sorted (map fst ?sel)"
    by (rule sorted_sort_key)
  have keys: "set (map fst ?top) \<subseteq> strftime_HM ` valid ts"
  proof
    fix k
    assume "k \<in> set (map fst ?top)"
    then obtain v where "(k, v) \<in> set ?top" by auto
    with sub have "(k, v) \<in> set ?ppt" by blast
    then show "k \<in> strftime_HM ` valid ts"
      by (auto simp: profit_per_time_iff)
  qed
  have "inj_on (\<lambda>k. the (strptime_HM k)) (set (map fst ?top))"
    using parse_inj keys by (rule inj_on_subset)
  moreover have "distinct (map fst ?top)"
    by (intro nlargest_distinct profit_per_time_distinct)
  ultimately have "distinct (map (\<lambda>k. the (strptime_HM k)) (map fst ?top))"
    by (simp only: distinct_map)
  moreover have "map fst (map ?par ?top) = map (\<lambda>k. the (strptime_HM k)) (map fst ?top)"
    by (simp add: case_prod_unfold comp_def)
  ultimately have dst: "distinct (map fst ?sel)"
    by (simp only: distinct_keys_sort_key)
  have set_sel: "set ?sel = ?par ` set ?top"
    by simp
  have incl: "set ?sel \<subseteq> set (time_totals ops ts ps)"
    using sub unfolding set_sel parsed_totals [symmetric] by (rule image_mono)
  have ln: "length ?sel = min (nat n) (length (time_totals ops ts ps))"
    using len by simp
  have "fle (snd y) (snd x)"
    if x: "x \<in> set ?sel" and y: "y \<in> set (time_totals ops ts ps)" and ny: "y \<notin> set ?sel"
    for x y
  proof -
    from x obtain x' where x': "x' \<in> set ?top" "x = ?par x'"
      unfolding set_sel by auto
    from y obtain y' where y': "y' \<in> set ?ppt" "y = ?par y'"
      unfolding parsed_totals [symmetric] by auto
    from ny y'(2) have "y' \<notin> set ?top"
      unfolding set_sel by auto
    with assms(4) x'(1) y'(1) have "fle (snd y') (snd x')"
      by (intro nlargest_select)
    then show ?thesis
      by (simp add: x'(2) y'(2) case_prod_unfold)
  qed
  then have choice: "\<forall>x \<in> set ?sel. \<forall>y \<in> set (time_totals ops ts ps).
      y \<notin> set ?sel \<longrightarrow> fle (snd y) (snd x)"
    by blast
  from res srt dst incl ln choice show ?thesis
    by (intro exI [of _ ?sel] conjI)
qed

text \<open>
  At the six trades of \<open>trades1\<close>, which fall on four days, with \<open>days = 5\<close> and
  \<open>n = 2\<close>: the totals per entry time are 150 (11:06), 137.5 (21:20) and 0 (21:21), and
  the average is (150 + 137.5) / 5 = 57.5: the divisor is 5, not 4. Every number in
  this computation is a binary fraction, on which float arithmetic is exact.
\<close>

theorem avg_profit_per_day_divides_by_days_witness:
  "deref [trades1] 0 = Some trades1
   \<and> getitem trades1 ''EntryTime'' = Inr (DatetimeCol times1)
   \<and> getitem trades1 ''ProfitLossAfterSlippage'' = Inr (FloatCol profits1)
   \<and> valid times1 \<noteq> {}
   \<and> (\<exists>sel. set sel \<subseteq> set (time_totals exact_ops times1 profits1) \<and> length sel = 2
         \<and> fround_2 exact_ops (fdiv_int exact_ops (fsum_series exact_ops (map snd sel)) 5)
            = Finite (115 / 2))
   \<and> snd (top_trading_times_and_avg_profit_per_day exact_ops (Some 5) [trades1] 0 2) =
       Inr (''11:06 ; 21:20'', Finite (115 / 2))
   \<and> length (remdups (map (\<lambda>t. t div day_ns) (List.map_filter (\<lambda>t. t) times1))) = 4"
proof -
  have a: "deref [trades1] 0 = Some trades1" by (simp add: deref_def)
  have b: "getitem trades1 ''EntryTime'' = Inr (DatetimeCol times1)"
    by (simp add: getitem_def trades1_def)
  have c: "getitem trades1 ''ProfitLossAfterSlippage'' = Inr (FloatCol profits1)"
    by (simp add: getitem_def trades1_def)
  have e: "valid times1 \<noteq> {}"
    by (simp add: times1_def valid_Some)
  have t: "length (time_totals exact_ops times1 profits1) = 3"
    by code_simp
  have r: "snd (top_trading_times_and_avg_profit_per_day exact_ops (Some 5) [trades1] 0 2) =
       Inr (''11:06 ; 21:20'', Finite (115 / 2))"
    by code_simp
  have dd: "length (remdups (map (\<lambda>t. t div day_ns) (List.map_filter (\<lambda>t. t) times1))) = 4"
    by code_simp
  from avg_profit_per_day_divides_by_days [OF a b c _ e, of 2 exact_ops 5] obtain sel where
    s: "snd (top_trading_times_and_avg_profit_per_day exact_ops (Some 5) [trades1] 0 2) =
       Inr (join '' ; '' (map (\<lambda>(m, v). strftime_minutes m) sel),
            fround_2 exact_ops (fdiv_int exact_ops (fsum_series exact_ops (map snd sel)) 5))"
    and i: "set sel \<subseteq> set (time_totals exact_ops times1 profits1)"
    and l: "length sel = min (nat 2) (length (time_totals exact_ops times1 profits1))"
    by auto
  from s r have "fround_2 exact_ops (fdiv_int exact_ops (fsum_series exact_ops (map snd sel)) 5)
      = Finite (115 / 2)"
    by simp
  moreover from l t have "length sel = 2" by simp
  ultimately have "\<exists>sel. set sel \<subseteq> set (time_totals exact_ops times1 profits1) \<and> length sel = 2
         \<and> fround_2 exact_ops (fdiv_int exact_ops (fsum_series exact_ops (map snd sel)) 5)
            = Finite (115 / 2)"
    using i by blast
  with a b c e r dd show ?thesis by blast
qed

text \<open>
  Claim C10 as stated, for every \<open>n\<close>, fails at \<open>n = 0\<close>: the selection is empty and the
  function raises instead of returning an average.
\<close>

theorem avg_profit_per_day_counterexample:
  "snd (top_trading_times_and_avg_profit_per_day exact_ops (Some 5) [trades1] 0 0) = Inl AttributeError"
  by code_simp

section \<open>The files of a notebook run\<close>

lemma heatmap_filenames:
  "map heatmap_filename days_list =
     [''heatmap_90_days.png'', ''heatmap_60_days.png'', ''heatmap_45_days.png'',
      ''heatmap_30_days.png'', ''heatmap_20_days.png'', ''heatmap_15_days.png'',
      ''heatmap_10_days.png'', ''heatmap_5_days.png'']"
  by (simp add: days_list_def heatmap_filename_def str_def str_nat.simps digit_def)

lemma set_glob:
  "set (glob suffixes w) = {name \<in> fst ` set (entries w). \<exists>s \<in> set suffixes. matches s name}"
  by (auto simp: glob_def)

lemma map_of_filter_names:
  "map_of (filter (\<lambda>(name, f). \<not> P name) xs) k = (if P k then None else map_of xs k)"
  by (induction xs) auto

lemma entries_sh_rm:
  "entries (sh_rm suffixes w) =
     filter (\<lambda>(name, f). \<not> (\<exists>s \<in> set suffixes. matches s name)) (entries w)"
proof -
  have "filter (\<lambda>(name, f). name \<notin> set (glob suffixes w)) (entries w) =
      filter (\<lambda>(name, f). \<not> (\<exists>s \<in> set suffixes. matches s name)) (entries w)"
    by (rule filter_cong) (auto simp: set_glob image_iff)
  then show ?thesis by (simp add: sh_rm_def)
qed










text \<open>
  When the first stage raises, on a table without the column \<^verbatim>\<open>EntryTime\<close> for
  instance, the run has removed the earlier reports, read the table and written
  nothing.
\<close>

lemma notebook_raises_at_load:
  assumes "map_of (entries w) ''Trades.csv'' = Some (Table t)"
    and "raises t Load = Some e"
  shows "\<exists>w'. notebook raises w = (w', Some e) \<and> written w' = written w
           \<and> opened w' = opened w @ [''Trades.csv'']
           \<and> entries w' = entries (sh_rm [''.png'', ''.html'', ''.zip''] w)"
proof -
  let ?pats = "[''.png'', ''.html'', ''.zip'']"
  let ?base = "filter (\<lambda>(name, f). \<not> (\<exists>s \<in> set ?pats. matches s name)) (entries w)"
  let ?w1 = "sh_rm ?pats w"
  let ?w2 = "?w1\<lparr>opened := opened ?w1 @ [''Trades.csv'']\<rparr>"
  have e1: "entries ?w1 = ?base"
    by (rule entries_sh_rm)
  have keep: "\<not> (\<exists>s \<in> set ?pats. matches s ''Trades.csv'')"
    by (simp add: matches_def ends_with_def)
  have "map_of ?base ''Trades.csv'' =
      (if \<exists>s \<in> set ?pats. matches s ''Trades.csv'' then None
       else map_of (entries w) ''Trades.csv'')"
    by (rule map_of_filter_names)
  with keep assms(1) have "map_of (entries ?w1) ''Trades.csv'' = Some (Table t)"
    unfolding e1 by (simp only: if_False)
  then have r: "read_csv ''Trades.csv'' ?w1 = (?w2, Inr t)"
    by (simp add: read_csv_def)
  have "notebook raises w = (?w2, Some e)"
    unfolding notebook_def Let_def r by (simp add: cells_def assms(2))
  then show ?thesis
    by (simp add: sh_rm_def)
qed

end
